theory Spec2Isabelle
  imports Complex_Main "HOL-Library.Log_Nat" "HOL-Library.Word"
begin

section \<open>Text generation endpoints of the horde (horde/apis/v2/kobold.py)\<close>

subsection \<open>Numbers of Python\<close>

text \<open>
  A number of Python is modelled by its value: an \<open>int\<close> or a finite \<open>float\<close> is the
  rational it denotes, and a \<open>float\<close> can also be infinite or not a number.  The two zeros
  of a \<open>float\<close> have the same value and are one number here; they compare equal in Python.
\<close>

datatype number = Finite rat | PosInf | NegInf | NaN

text \<open>Rounding to the nearest integer, a tie going to the even one.\<close>

definition round_half_even :: "rat \<Rightarrow> int" where
  "round_half_even x =
     (let f = \<lfloor>x\<rfloor>; d = x - of_int f
      in if d < 1 / 2 then f
         else if 1 / 2 < d then f + 1
         else if even f then f else f + 1)"

text \<open>The exponent of a positive rational: the integer \<open>k\<close> with \<open>2 ^ k \<le> x < 2 ^ (k + 1)\<close>,
  found from the bit lengths of numerator and denominator.\<close>

definition ilog2 :: "rat \<Rightarrow> int" where
  "ilog2 x = (let (a, b) = quotient_of x; t = bitlen a - bitlen b
              in if 2 powi t \<le> x then t else t - 1)"

text \<open>
  The result of an operation on \<open>float\<close>s is the exact result rounded to a double
  (IEEE 754 binary64, round to nearest, ties to even): 53 bits of mantissa, no exponent of
  the last bit below \<open>-1074\<close>, and infinity from \<open>2 ^ 1024\<close> on.
\<close>

definition rnd :: "rat \<Rightarrow> number" where
  "rnd x =
     (if x = 0 then Finite 0
      else let a = \<bar>x\<bar>;
               e = max (ilog2 a - 52) (- 1074);
               v = of_int (round_half_even (a / 2 powi e)) * 2 powi e
           in if 2 powi 1024 \<le> v then (if 0 < x then PosInf else NegInf)
              else Finite (if 0 < x then v else - v))"

text \<open>\<open>x * y\<close> on two \<open>float\<close>s.\<close>

fun fmul :: "number \<Rightarrow> number \<Rightarrow> number" where
  "fmul NaN y = NaN"
| "fmul x NaN = NaN"
| "fmul (Finite a) (Finite b) = rnd (a * b)"
| "fmul (Finite a) PosInf = (if a = 0 then NaN else if 0 < a then PosInf else NegInf)"
| "fmul (Finite a) NegInf = (if a = 0 then NaN else if 0 < a then NegInf else PosInf)"
| "fmul PosInf (Finite b) = (if b = 0 then NaN else if 0 < b then PosInf else NegInf)"
| "fmul NegInf (Finite b) = (if b = 0 then NaN else if 0 < b then NegInf else PosInf)"
| "fmul PosInf PosInf = PosInf"
| "fmul PosInf NegInf = NegInf"
| "fmul NegInf PosInf = NegInf"
| "fmul NegInf NegInf = PosInf"

text \<open>\<open>x / d\<close> for a \<open>float\<close> \<open>x\<close> and a positive integer constant \<open>d\<close> (here 21).\<close>

fun div_by :: "number \<Rightarrow> rat \<Rightarrow> number" where
  "div_by (Finite a) d = rnd (a / d)"
| "div_by x d = x"

text \<open>
  \<open>round(x, ndigits)\<close> on a \<open>float\<close>: the value of \<open>x\<close> is rounded to \<open>ndigits\<close> decimals,
  a tie going to the even digit, and the decimal is rounded to a double; an infinity or a
  NaN is returned as it is.
\<close>

fun py_round :: "number \<Rightarrow> nat \<Rightarrow> number" where
  "py_round (Finite x) ndigits = rnd (of_int (round_half_even (x * 10 ^ ndigits)) / 10 ^ ndigits)"
| "py_round x ndigits = x"

text \<open>\<open>x > y\<close>: by value; false whenever one side is a NaN.\<close>

fun py_gt :: "number \<Rightarrow> number \<Rightarrow> bool" where
  "py_gt NaN y = False"
| "py_gt x NaN = False"
| "py_gt (Finite a) (Finite b) = (b < a)"
| "py_gt PosInf PosInf = False"
| "py_gt PosInf y = True"
| "py_gt x NegInf = (x \<noteq> NegInf)"
| "py_gt x PosInf = False"
| "py_gt NegInf y = False"

text \<open>\<open>float(i)\<close>, the conversion that Python applies to an \<open>int\<close> that meets a \<open>float\<close>.\<close>

definition py_float :: "int \<Rightarrow> number" where
  "py_float i = rnd (of_int i)"

subsection \<open>Errors\<close>

text \<open>
  The exceptions of \<open>horde.exceptions\<close> that this file raises, with the arguments
  given at the raise, and the built-in exceptions of Python that its expressions can raise.
  \<open>KudosUpfront\<close>: kudos required, username, message, and the \<open>rc\<close> keyword when the
  raise gives one.  \<open>BadRequest\<close>: message, and the \<open>rc\<close> argument when given.
  \<open>RequestNotFound\<close>: id and request type.
\<close>

datatype error =
    KudosUpfront number string string "string option"
  | BadRequest string "string option"
  | RequestNotFound string string
  | UserNotFound string
  | PyValueError
  | PyIndexError

subsection \<open>Required kudos (initiate\_waiting\_prompt, the part before the checks)\<close>

text \<open>
  The fields of a \<open>TextWaitingPrompt\<close> that this file reads or writes.  \<open>n\<close> and
  \<open>max_length\<close> are integer columns of the table of waiting prompts (\<open>delete\<close> writes
  \<open>wp.n\<close> and commits; the tables of this code base declare such columns with
  \<open>db.Integer\<close>, as \<open>settings.py\<close> does): 32-bit signed integers, read with \<open>sint\<close>.
\<close>

record waiting_prompt =
  wp_id :: string
  n :: "32 word"
  max_length :: "32 word"

text \<open>
  The loop over \<open>self.models\<close>: \<open>highest_multiplier\<close> starts at 0 and is replaced by
  every strictly greater multiplier.  \<open>get_text_model_multiplier\<close> belongs to the model
  reference, which is a parameter here; a multiplier is a \<open>float\<close>.  (An \<open>int\<close>
  multiplier \<open>m\<close> gives the same amount as \<open>float(m)\<close> whenever \<open>max_length * m\<close> is
  below \<open>2 ^ 53\<close>, where the product is exact on both paths.)
\<close>

fun highest_multiplier_loop :: "(string \<Rightarrow> number) \<Rightarrow> string list \<Rightarrow> number \<Rightarrow> number" where
  "highest_multiplier_loop get_text_model_multiplier [] highest_multiplier = highest_multiplier"
| "highest_multiplier_loop get_text_model_multiplier (model # models) highest_multiplier =
     (let model_multiplier = get_text_model_multiplier model
      in if py_gt model_multiplier highest_multiplier
         then highest_multiplier_loop get_text_model_multiplier models model_multiplier
         else highest_multiplier_loop get_text_model_multiplier models highest_multiplier)"

text \<open>
  Lines 116-125.  \<open>20 * n\<close> is a product of \<open>int\<close>s.  In the other branch
  \<open>max_length * highest_multiplier\<close> and \<open>... * n\<close> convert the \<open>int\<close> to a \<open>float\<close> and
  multiply, \<open>/ 21\<close> divides, and each operation rounds its result.
\<close>

definition required_kudos :: "(string \<Rightarrow> number) \<Rightarrow> string list \<Rightarrow> waiting_prompt \<Rightarrow> number" where
  "required_kudos get_text_model_multiplier models wp =
     (if length models = 0 then Finite (of_int (20 * sint (n wp)))
      else fmul (py_round (div_by (fmul (py_float (sint (max_length wp)))
                                     (highest_multiplier_loop get_text_model_multiplier models
                                        (Finite 0)))
                              21) 2)
                (py_float (sint (n wp))))"

subsection \<open>The request handler and its collaborators\<close>

text \<open>A user; \<open>kudos\<close> is the value of the balance, whether the column holds an \<open>int\<close> or a
  \<open>float\<close>.\<close>

record user =
  user_id :: int
  kudos :: rat
  trusted :: bool

text \<open>A shared key; \<open>sk_kudos\<close> is the value of its \<open>kudos\<close> column, where \<open>-1\<close> stands for
  no limit.\<close>

record shared_key =
  sk_id :: string
  sk_kudos :: rat

text \<open>Values of the \<open>params\<close> dictionary of a request or of a style.\<close>

datatype pyval = PInt int | PNum rat | PStr string | PBool bool | PNone | PList "pyval list"

text \<open>
  A style: \<open>style_models\<close> is what \<open>get_model_names()\<close> returns, \<open>style_user\<close> the id of
  its owner, \<open>style_sharedkey\<close> the shared key bound to it, if any.  A style collection
  holds member styles.  The \<open>use_count\<close> columns live in the database state below.
\<close>

record style =
  style_id :: string
  style_type :: string
  style_prompt :: string
  style_params :: "string \<rightharpoonup> pyval"
  style_models :: "string list"
  style_nsfw :: bool
  style_user :: int
  style_sharedkey :: "shared_key option"

record style_collection =
  collection_id :: string
  collection_type :: string
  styles :: "style list"

datatype style_obj = Style style | StyleCollection style_collection

text \<open>The arguments of the request that the two methods read.\<close>

record generate_args =
  style_arg :: "string option"
  allow_downgrade :: bool

text \<open>
  The attributes of a \<open>TextAsyncGenerate\<close> instance.  \<open>wp_deleted\<close> records that
  \<open>self.wp.delete()\<close> has removed the row of the waiting prompt from the database.
\<close>

record generate =
  args :: generate_args
  models :: "string list"
  prompt :: string
  params :: "string \<rightharpoonup> pyval"
  nsfw :: bool
  user :: user
  username :: string
  sharedkey :: "shared_key option"
  existing_style :: "style option"
  style_kudos :: bool
  wp :: waiting_prompt
  wp_deleted :: bool
  downgrade_wp_priority :: bool

text \<open>
  What \<open>initiate_waiting_prompt\<close> calls outside this file:
  the multiplier table of the model reference;
  \<open>wp.require_upfront_kudos(totals, total_threads)\<close>, which returns
  \<open>(needs_kudos, tokens, disable_downgrade)\<close>;
  \<open>wp.downgrade(tokens)\<close>, which changes the waiting prompt;
  \<open>sharedkey.is_job_within_limits(text_tokens=...)\<close>, which returns
  \<open>(is_in_limit, fail_message)\<close>;
  and the printing of a number inside an f-string.
\<close>

record collaborators =
  get_text_model_multiplier :: "string \<Rightarrow> number"
  require_upfront_kudos :: "waiting_prompt \<Rightarrow> bool \<times> int \<times> bool"
  downgrade :: "waiting_prompt \<Rightarrow> int \<Rightarrow> waiting_prompt"
  is_job_within_limits :: "shared_key \<Rightarrow> 32 word \<Rightarrow> bool \<times> string"
  py_str :: "number \<Rightarrow> string"

subsection \<open>TextAsyncGenerate.initiate\_waiting\_prompt\<close>

text \<open>The condition of line 160: the style in use carries a shared key with the id of the
  shared key of the request.\<close>

definition style_sharedkey_matches :: "style option \<Rightarrow> shared_key \<Rightarrow> bool" where
  "style_sharedkey_matches st sk =
     (case st of
        None \<Rightarrow> False
      | Some s \<Rightarrow> (case style_sharedkey s of None \<Rightarrow> False | Some k \<Rightarrow> sk_id k = sk_id sk))"

text \<open>
  \<open>new_wp\<close> is the \<open>TextWaitingPrompt\<close> that the constructor call of line 96 builds.
  The comparisons of lines 127 and 140 are comparisons of numbers of Python, \<open>py_gt\<close>.
  The result is the exception raised, if any, and the handler with the effects made up to
  that point.
\<close>

definition initiate_waiting_prompt ::
  "collaborators \<Rightarrow> waiting_prompt \<Rightarrow> generate \<Rightarrow> (error + unit) \<times> generate" where
  "initiate_waiting_prompt c new_wp self0 =
     (let self1 = self0\<lparr>wp := new_wp, wp_deleted := False\<rparr>;
          required = required_kudos (get_text_model_multiplier c) (models self1) (wp self1);
          (needs_kudos, tokens, disable_downgrade) = require_upfront_kudos c (wp self1)
      in case (case sharedkey self1 of
                 Some sk \<Rightarrow>
                   if sk_kudos sk \<noteq> - 1 \<and> py_gt required (Finite (sk_kudos sk)) then
                     if allow_downgrade (args self1) \<and> \<not> disable_downgrade
                     then Inr (self1\<lparr>downgrade_wp_priority := True\<rparr>)
                     else Inl (KudosUpfront required (username self1)
                                 (''This shared key does not have enough remaining kudos (''
                                    @ py_str c (Finite (sk_kudos sk))
                                    @ '') to fulfill this reques ('' @ py_str c required @ '').'')
                                 (Some ''SharedKeyInsufficientKudos''),
                               self1\<lparr>wp_deleted := True\<rparr>)
                   else Inr self1
               | None \<Rightarrow> Inr self1) of
           Inl (e, s) \<Rightarrow> (Inl e, s)
         | Inr self2 \<Rightarrow>
             (case (if needs_kudos then
                      if py_gt required (Finite (kudos (user self2))) then
                        if allow_downgrade (args self2) \<and> \<not> disable_downgrade
                        then Inr (self2\<lparr>wp := downgrade c (wp self2) tokens\<rparr>)
                        else Inl (KudosUpfront required (username self2)
                                    (''Due to heavy demand, for requests over ''
                                       @ py_str c (Finite (of_int tokens))
                                       @ '' tokens, the client needs to already have the required kudos. ''
                                       @ ''This request requires '' @ py_str c required
                                       @ '' kudos to fulfil.'')
                                    None,
                                  self2\<lparr>wp_deleted := True\<rparr>)
                      else Inr self2
                    else Inr self2) of
                Inl (e, s) \<Rightarrow> (Inl e, s)
              | Inr self3 \<Rightarrow>
                  (case sharedkey self3 of
                     Some sk \<Rightarrow>
                       let (is_in_limit, fail_message) =
                             is_job_within_limits c sk (max_length (wp self3))
                       in if \<not> is_in_limit then
                            if \<not> style_sharedkey_matches (existing_style self3) sk
                            then (Inl (BadRequest fail_message None), self3\<lparr>wp_deleted := True\<rparr>)
                            else (Inr (), self3)
                          else (Inr (), self3)
                   | None \<Rightarrow> (Inr (), self3))))"

subsection \<open>The built-in \<open>str.format_map\<close> on a \<open>defaultdict(str, p=...)\<close>\<close>

text \<open>
  \<open>apply_style\<close> evaluates \<open>template.format_map(defaultdict(str, p=prompt))\<close>.  The scan
  follows the interpreter: text is copied, \<open>{{\<close> and \<open>}}\<close> stand for one brace, a single
  \<open>}\<close> or a \<open>{\<close> that is never closed raises \<open>ValueError\<close>, and so does a \<open>{\<close> inside
  a field.  A field whose first part (up to a dot) is empty or made of decimal digits is
  positional, which \<open>format_map\<close> refuses with \<open>ValueError\<close>.  Any other plain name is
  looked up in the dictionary: \<open>p\<close> gives the prompt, a missing key gives the empty string.

  A field with an attribute or an index (\<open>.\<close>, \<open>[\<close>), a conversion (\<open>!\<close>) or a format
  specification (\<open>:\<close>), and a name that has bytes outside ASCII and no ASCII character other
  than digits (it may be a number in another script), are outside this scan: the parameter
  \<open>beyond\<close> stands for what the interpreter does with the template from that field on.
  The state of the scan is \<open>None\<close> in text and, inside a field, the reversed name read so
  far with the template from the opening brace of the field.
\<close>

definition emit :: "string \<Rightarrow> error + string \<Rightarrow> error + string" where
  "emit s r = (case r of Inl e \<Rightarrow> Inl e | Inr out \<Rightarrow> Inr (s @ out))"

definition is_digit :: "char \<Rightarrow> bool" where
  "is_digit ch = (ch \<in> set ''0123456789'')"

definition ascii_non_digit :: "char \<Rightarrow> bool" where
  "ascii_non_digit ch = (of_char ch < (128 :: nat) \<and> \<not> is_digit ch)"

definition first_part :: "string \<Rightarrow> string" where
  "first_part name = takeWhile (\<lambda>ch. ch \<noteq> CHR ''.'') name"

fun format_scan ::
  "(string \<Rightarrow> string \<Rightarrow> error + string) \<Rightarrow> string \<Rightarrow> (string \<times> string) option \<Rightarrow> string
     \<Rightarrow> error + string" where
  "format_scan beyond p None [] = Inr []"
| "format_scan beyond p None [c] =
     (if c = CHR ''{'' \<or> c = CHR ''}'' then Inl PyValueError else Inr [c])"
| "format_scan beyond p None (c # d # cs) =
     (if c = CHR ''{'' then
        (if d = CHR ''{'' then emit [c] (format_scan beyond p None cs)
         else format_scan beyond p (Some ([], c # d # cs)) (d # cs))
      else if c = CHR ''}'' then
        (if d = CHR ''}'' then emit [c] (format_scan beyond p None cs) else Inl PyValueError)
      else emit [c] (format_scan beyond p None (d # cs)))"
| "format_scan beyond p (Some (acc, whole)) [] = Inl PyValueError"
| "format_scan beyond p (Some (acc, whole)) (c # cs) =
     (if c = CHR ''}'' then
        (let name = rev acc
         in if list_all is_digit (first_part name) then Inl PyValueError
            else if \<not> list_ex ascii_non_digit (first_part name) then beyond whole p
            else if CHR ''.'' \<in> set name then beyond whole p
            else emit (if name = ''p'' then p else []) (format_scan beyond p None cs))
      else if c = CHR ''{'' then Inl PyValueError
      else if c = CHR ''['' \<or> c = CHR '':'' \<or> c = CHR ''!'' then beyond whole p
      else format_scan beyond p (Some (c # acc, whole)) cs)"

definition format_map :: "(string \<Rightarrow> string \<Rightarrow> error + string) \<Rightarrow> string \<Rightarrow> string \<Rightarrow> error + string" where
  "format_map beyond template p = format_scan beyond p None template"


subsection \<open>TextAsyncGenerate.apply\_style\<close>

text \<open>
  The columns that \<open>apply_style\<close> writes before its \<open>db.session.commit()\<close>: the
  \<open>use_count\<close> of a style or collection, by id, and the calls of \<open>record_style\<close> on the
  owner of a style (owner id, kudos, type).
\<close>

record style_db =
  use_count :: "string \<Rightarrow> int"
  recorded_styles :: "(int \<times> int \<times> string) list"

definition obj_style_type :: "style_obj \<Rightarrow> string" where
  "obj_style_type obj = (case obj of Style s \<Rightarrow> style_type s | StyleCollection col \<Rightarrow> collection_type col)"

text \<open>
  \<open>super_apply_style\<close> is the outcome of \<open>super().apply_style()\<close>: an exception, or the
  object it stores in \<open>self.existing_style\<close>.  \<open>shuffle\<close> is \<open>random.shuffle\<close>.  An
  exception leaves before the commit, so it comes without a state.
\<close>

definition apply_style ::
  "(error + style_obj) \<Rightarrow> (style list \<Rightarrow> style list) \<Rightarrow> (string \<Rightarrow> string \<Rightarrow> error + string)
     \<Rightarrow> generate \<times> style_db \<Rightarrow> error + generate \<times> style_db" where
  "apply_style super_apply_style shuffle beyond state =
     (let (self, db) = state
      in case style_arg (args self) of
           None \<Rightarrow> Inr (self, db)
         | Some name \<Rightarrow>
             (case super_apply_style of
                Inl e \<Rightarrow> Inl e
              | Inr obj \<Rightarrow>
                  if obj_style_type obj \<noteq> ''text''
                  then Inl (BadRequest ''Image styles cannot be used on image requests''
                              (Some ''StyleMismatch''))
                  else
                    (case (case obj of
                             Style s \<Rightarrow> Inr (s, db)
                           | StyleCollection col \<Rightarrow>
                               (case shuffle (styles col) of
                                  [] \<Rightarrow> Inl PyIndexError
                                | s # colstyles \<Rightarrow>
                                    Inr (s, db\<lparr>use_count := (use_count db)
                                                 (collection_id col := use_count db (collection_id col) + 1)\<rparr>))) of
                       Inl e \<Rightarrow> Inl e
                     | Inr (s, db1) \<Rightarrow>
                         (case format_map beyond (style_prompt s) (prompt self) of
                            Inl e \<Rightarrow> Inl e
                          | Inr new_prompt \<Rightarrow>
                              let requested_n = (case params self ''n'' of Some v \<Rightarrow> v | None \<Rightarrow> PInt 1);
                                  self1 = self\<lparr>existing_style := Some s,
                                               models := style_models s,
                                               prompt := new_prompt,
                                               params := (style_params s)(''n'' \<mapsto> requested_n),
                                               nsfw := style_nsfw s\<rparr>;
                                  db2 = db1\<lparr>use_count := (use_count db1)
                                              (style_id s := use_count db1 (style_id s) + 1)\<rparr>
                              in if style_user s \<noteq> user_id (user self1)
                                 then Inr (self1\<lparr>style_kudos := True\<rparr>,
                                           db2\<lparr>recorded_styles :=
                                                 recorded_styles db2 @ [(style_user s, 2, ''text'')]\<rparr>)
                                 else Inr (self1, db2)))))"

subsection \<open>TextAsyncStatus.delete\<close>

text \<open>
  The waiting prompts of the database, by id; a waiting prompt may have more columns than
  the ones named above, which is why the record is left open.  \<open>get_status\<close> is \<open>wp.get_status(...)\<close> with
  the aggregates that the call reads from the database at that moment.  The result is the
  exception or the pair of the status and the HTTP code, and the database afterwards.
\<close>

definition delete ::
  "((string \<rightharpoonup> 'a waiting_prompt_scheme) \<Rightarrow> 'a waiting_prompt_scheme \<Rightarrow> 'status) \<Rightarrow> string
     \<Rightarrow> (string \<rightharpoonup> 'a waiting_prompt_scheme)
     \<Rightarrow> (error + 'status \<times> nat) \<times> (string \<rightharpoonup> 'a waiting_prompt_scheme)" where
  "delete get_status wid db =
     (case db wid of
        None \<Rightarrow> (Inl (RequestNotFound wid ''Text Waiting Prompt (Delete)''), db)
      | Some w \<Rightarrow>
          let wp_status = get_status db w
          in (Inr (wp_status, 200), db(wid \<mapsto> w\<lparr>n := 0\<rparr>)))"

subsection \<open>KoboldKudosTransfer.post\<close>

record transfer_args =
  kai_id :: int
  kudos_amount :: int
  args_trusted :: bool

text \<open>
  \<open>users\<close> is the table that \<open>find_user_by_id\<close> reads, \<open>parse_args\<close> the outcome of
  \<open>post_parser.parse_args()\<close>; \<open>set_trusted\<close> and \<open>modify_kudos\<close> are the methods of the
  user.  The result is the exception or the response, and the table afterwards.
\<close>

definition post ::
  "(bool \<Rightarrow> user \<Rightarrow> user) \<Rightarrow> (int \<Rightarrow> string \<Rightarrow> user \<Rightarrow> user) \<Rightarrow> string \<Rightarrow> string
     \<Rightarrow> (error + transfer_args) \<Rightarrow> (string \<rightharpoonup> user)
     \<Rightarrow> (error + rat \<times> nat) \<times> (string \<rightharpoonup> user)" where
  "post set_trusted modify_kudos remote_addr uid parse_args users =
     (if remote_addr \<noteq> ''167.86.124.45'' then (Inl (BadRequest ''Access Denied'' None), users)
      else case users uid of
             None \<Rightarrow> (Inl (UserNotFound uid), users)
           | Some u \<Rightarrow>
               (case parse_args of
                  Inl e \<Rightarrow> (Inl e, users)
                | Inr a \<Rightarrow>
                    let u1 = (if trusted u = False \<and> args_trusted a = True
                              then set_trusted (args_trusted a) u else u);
                        u2 = modify_kudos (kudos_amount a) ''koboldai'' u1
                    in (Inr (kudos u2, 200), users(uid \<mapsto> u2))))"

section \<open>Vocabulary of the properties\<close>

subsection \<open>Templates whose fields are keyword names\<close>

text \<open>
  A template written as pieces: literal text, where a brace is doubled in the template, and
  fields \<open>{name}\<close>.  A keyword name has none of the characters \<open>{ } [ : ! .\<close> and has an
  ASCII character that is not a digit.  \<open>fill\<close> is the text that the specification
  describes: the prompt in place of the field \<open>p\<close>, nothing in place of any other field.
\<close>

datatype piece = Lit string | Slot string

definition escape_braces :: "string \<Rightarrow> string" where
  "escape_braces s = concat (map (\<lambda>ch. if ch = CHR ''{'' \<or> ch = CHR ''}'' then [ch, ch] else [ch]) s)"

fun render_piece :: "piece \<Rightarrow> string" where
  "render_piece (Lit s) = escape_braces s"
| "render_piece (Slot name) = ''{'' @ name @ ''}''"

definition template_of :: "piece list \<Rightarrow> string" where
  "template_of pieces = concat (map render_piece pieces)"

definition plain_char :: "char \<Rightarrow> bool" where
  "plain_char ch = (ch \<notin> set ''{}[:!.'')"

definition keyword_name :: "string \<Rightarrow> bool" where
  "keyword_name name = (list_all plain_char name \<and> list_ex ascii_non_digit name)"

fun keyword_piece :: "piece \<Rightarrow> bool" where
  "keyword_piece (Lit s) = True"
| "keyword_piece (Slot name) = keyword_name name"

fun fill_piece :: "string \<Rightarrow> piece \<Rightarrow> string" where
  "fill_piece p (Lit s) = s"
| "fill_piece p (Slot name) = (if name = ''p'' then p else [])"

definition fill :: "string \<Rightarrow> piece list \<Rightarrow> string" where
  "fill p pieces = concat (map (fill_piece p) pieces)"

subsection \<open>Concrete requests\<close>

definition ex_multiplier :: "string \<Rightarrow> number" where
  "ex_multiplier m = (if m = ''A'' then Finite 2 else Finite 5)"

text \<open>Collaborators with a token ceiling of 100 on every shared key and a \<open>downgrade\<close> that
  lowers \<open>max_length\<close> to the threshold.\<close>

definition ex_collaborators :: "bool \<times> int \<times> bool \<Rightarrow> collaborators" where
  "ex_collaborators upfront =
     \<lparr>get_text_model_multiplier = ex_multiplier,
      require_upfront_kudos = (\<lambda>w. upfront),
      downgrade = (\<lambda>w t. if t < sint (max_length w) then w\<lparr>max_length := word_of_int t\<rparr> else w),
      is_job_within_limits = (\<lambda>sk t. (sint t \<le> 100, ''too many tokens'')),
      py_str = (\<lambda>x. ''?'')\<rparr>"

definition ex_wp :: waiting_prompt where
  "ex_wp = \<lparr>wp_id = ''job'', n = 1, max_length = 210\<rparr>"

text \<open>Two requests whose amounts are not exact in binary: 15 units of 281 tokens at the
  multiplier 5, and 15 units of 205 tokens at the multiplier 6.7 (the double nearest to it).\<close>

definition ex_wp_281 :: waiting_prompt where
  "ex_wp_281 = \<lparr>wp_id = ''job'', n = 15, max_length = 281\<rparr>"

definition ex_wp_205 :: waiting_prompt where
  "ex_wp_205 = \<lparr>wp_id = ''job'', n = 15, max_length = 205\<rparr>"

definition ex_collaborators_67 :: "bool \<times> int \<times> bool \<Rightarrow> collaborators" where
  "ex_collaborators_67 upfront =
     (ex_collaborators upfront)\<lparr>get_text_model_multiplier := (\<lambda>m. rnd (67 / 10))\<rparr>"

definition ex_style :: style where
  "ex_style =
     \<lparr>style_id = ''style-1'', style_type = ''text'',
      style_prompt = ''Story about {p}, {tone}. {{ok}}'',
      style_params = [''n'' \<mapsto> PInt 4, ''max_length'' \<mapsto> PInt 120],
      style_models = [''B''], style_nsfw = False, style_user = 9,
      style_sharedkey = Some \<lparr>sk_id = ''key'', sk_kudos = 1000\<rparr>\<rparr>"

definition ex_generate :: "shared_key option \<Rightarrow> rat \<Rightarrow> bool \<Rightarrow> style option \<Rightarrow> generate" where
  "ex_generate sk balance allow st =
     \<lparr>args = \<lparr>style_arg = None, allow_downgrade = allow\<rparr>,
      models = [''A'', ''B''], prompt = ''Hello'', params = Map.empty, nsfw = False,
      user = \<lparr>user_id = 7, kudos = balance, trusted = False\<rparr>, username = ''alice#7'',
      sharedkey = sk, existing_style = st, style_kudos = False,
      wp = \<lparr>wp_id = [], n = 0, max_length = 0\<rparr>, wp_deleted = False,
      downgrade_wp_priority = False\<rparr>"

definition ex_styled :: generate where
  "ex_styled = (ex_generate None 100 False None)
     \<lparr>args := \<lparr>style_arg = Some ''storyteller'', allow_downgrade = False\<rparr>,
      params := [''n'' \<mapsto> PInt 2, ''max_length'' \<mapsto> PInt 500]\<rparr>"

definition ex_style_db :: style_db where
  "ex_style_db = \<lparr>use_count = (\<lambda>i. 0), recorded_styles = []\<rparr>"

definition ex_pieces :: "piece list" where
  "ex_pieces = [Lit ''Story about '', Slot ''p'', Lit '', '', Slot ''tone'', Lit ''. {ok}'']"

definition ex_jobs :: "string \<rightharpoonup> waiting_prompt" where
  "ex_jobs = [''job'' \<mapsto> \<lparr>wp_id = ''job'', n = 3, max_length = 80\<rparr>,
              ''done'' \<mapsto> \<lparr>wp_id = ''done'', n = 0, max_length = 80\<rparr>]"

definition ex_users :: "string \<rightharpoonup> user" where
  "ex_users = [''7'' \<mapsto> \<lparr>user_id = 7, kudos = 10, trusted = False\<rparr>]"

section \<open>Properties\<close>

subsection \<open>Numbers\<close>

text \<open>\<open>ilog2\<close> is the exponent: \<open>2 ^ ilog2 x \<le> x < 2 ^ (ilog2 x + 1)\<close>.\<close>

lemma ilog2_bounds:
  assumes "0 < x"
  shows "2 powi ilog2 x \<le> x" and "x < 2 powi (ilog2 x + 1)"
proof -
  obtain a b where q: "quotient_of x = (a, b)" by (cases "quotient_of x")
  have b: "0 < b" using q by (rule quotient_of_denom_pos)
  have x: "x = of_int a / of_int b" using q by (rule quotient_of_div)
  have a: "0 < a" using assms b x by (simp add: zero_less_divide_iff)
  define la lb where "la = bitlen a" and "lb = bitlen b"
  have la1: "1 \<le> la" and lb1: "1 \<le> lb" using a b by (auto simp: la_def lb_def bitlen_alt_def)
  from bitlen_bounds [OF a] have "(2::int) ^ nat (la - 1) \<le> a" "a < 2 ^ nat la"
    by (simp_all add: la_def)
  then have "(of_int ((2::int) ^ nat (la - 1)) :: rat) \<le> of_int a"
    and "(of_int a :: rat) < of_int (2 ^ nat la)"
    by (simp_all only: of_int_le_iff of_int_less_iff)
  then have A: "(2::rat) powi (la - 1) \<le> of_int a" "(of_int a :: rat) < 2 powi la"
    using la1 by (simp_all add: power_int_nonneg_exp)
  from bitlen_bounds [OF b] have "(2::int) ^ nat (lb - 1) \<le> b" "b < 2 ^ nat lb"
    by (simp_all add: lb_def)
  then have "(of_int ((2::int) ^ nat (lb - 1)) :: rat) \<le> of_int b"
    and "(of_int b :: rat) < of_int (2 ^ nat lb)"
    by (simp_all only: of_int_le_iff of_int_less_iff)
  then have B: "(2::rat) powi (lb - 1) \<le> of_int b" "(of_int b :: rat) < 2 powi lb"
    using lb1 by (simp_all add: power_int_nonneg_exp)
  have bpos: "(0::rat) < of_int b" using b by simp
  have up: "x < 2 powi (la - lb + 1)"
  proof -
    have "of_int a < (2::rat) powi (la - lb + 1) * 2 powi (lb - 1)"
      using A(2) by (simp add: power_int_add [symmetric])
    also have "\<dots> \<le> 2 powi (la - lb + 1) * of_int b"
      using B(1) by (simp add: mult_left_mono)
    finally show ?thesis using bpos by (simp add: x pos_divide_less_eq)
  qed
  have lo: "2 powi (la - lb - 1) \<le> x"
  proof -
    have "(2::rat) powi (la - lb - 1) * of_int b \<le> 2 powi (la - lb - 1) * 2 powi lb"
      using B(2) by (simp add: mult_left_mono)
    also have "\<dots> = 2 powi (la - 1)" by (simp add: power_int_add [symmetric])
    also have "\<dots> \<le> of_int a" by (rule A(1))
    finally show ?thesis using bpos by (simp add: x pos_le_divide_eq)
  qed
  have i: "ilog2 x = (if 2 powi (la - lb) \<le> x then la - lb else la - lb - 1)"
    by (simp add: ilog2_def q la_def lb_def Let_def)
  show "2 powi ilog2 x \<le> x" using lo by (simp add: i)
  show "x < 2 powi (ilog2 x + 1)" using up by (auto simp add: i not_le)
qed

lemma powi2_less_imp_less:
  assumes "(2::rat) powi L < 2 powi K"
  shows "L < K"
proof (rule ccontr)
  assume "\<not> L < K"
  then have "K \<le> L" by simp
  then have "(2::rat) powi K \<le> 2 powi L" by (rule power_int_increasing) simp
  with assms show False by simp
qed

lemma powi2_le_less_unique:
  assumes "(2::rat) powi L \<le> x" "x < 2 powi (L + 1)" "2 powi K \<le> x" "x < 2 powi (K + 1)"
  shows "L = K"
proof -
  have "(2::rat) powi L < 2 powi (K + 1)" using assms(1,4) by simp
  then have 1: "L < K + 1" by (rule powi2_less_imp_less)
  have "(2::rat) powi K < 2 powi (L + 1)" using assms(3,2) by simp
  then have 2: "K < L + 1" by (rule powi2_less_imp_less)
  from 1 2 show ?thesis by simp
qed

lemma ilog2_eq: "0 < x \<Longrightarrow> 2 powi L \<le> x \<Longrightarrow> x < 2 powi (L + 1) \<Longrightarrow> ilog2 x = L"
  using ilog2_bounds [of x] powi2_le_less_unique [of "ilog2 x" x L] by simp

text \<open>\<open>round_half_even\<close> is the nearest integer.\<close>

lemma round_half_even_near:
  assumes "\<bar>x - of_int m\<bar> < 1 / 2"
  shows "round_half_even x = m"
proof (cases "of_int m \<le> x")
  case True
  with assms have f: "\<lfloor>x\<rfloor> = m" by (intro floor_unique) (simp_all add: abs_less_iff)
  with assms True show ?thesis by (simp add: round_half_even_def Let_def abs_less_iff)
next
  case False
  with assms have f: "\<lfloor>x\<rfloor> = m - 1" by (intro floor_unique) (simp_all add: abs_less_iff)
  with assms False show ?thesis by (simp add: round_half_even_def Let_def abs_less_iff)
qed

lemma round_half_even_int: "round_half_even (of_int m) = m"
  by (rule round_half_even_near) simp



text \<open>Rounding to a double from the exponent \<open>L\<close> of the argument and the mantissa \<open>m\<close>.\<close>

lemma rnd_0: "rnd 0 = Finite 0"
  by (simp add: rnd_def)

lemma rnd_eq:
  assumes "x \<noteq> 0" and "2 powi L \<le> \<bar>x\<bar>" and "\<bar>x\<bar> < 2 powi (L + 1)"
    and "e = max (L - 52) (- 1074)"
    and "round_half_even (\<bar>x\<bar> / 2 powi e) = m"
    and "of_int m * 2 powi e < (2::rat) powi 1024"
  shows "rnd x = Finite (sgn x * (of_int m * 2 powi e))"
proof -
  have pos: "0 < \<bar>x\<bar>" using assms(1) by simp
  have l: "ilog2 \<bar>x\<bar> = L" using pos assms(2,3) by (rule ilog2_eq)
  have s: "(if 0 < x then v else - v) = sgn x * v" for v :: rat
    using assms(1) by (simp add: sgn_if)
  show ?thesis
    using assms(1,6) unfolding rnd_def l Let_def assms(4) [symmetric] assms(5) s
    by (simp add: not_le [symmetric])
qed

text \<open>A number with at most 53 significant bits is a double: rounding leaves it as it is.\<close>

lemma rnd_exact:
  assumes "x \<noteq> 0" and "2 powi L \<le> \<bar>x\<bar>" and "\<bar>x\<bar> < 2 powi (L + 1)"
    and "L < 1024" and "\<bar>x\<bar> / 2 powi (max (L - 52) (- 1074)) = of_int m"
  shows "rnd x = Finite x"
proof -
  define e where "e = max (L - 52) (- 1074)"
  have r: "round_half_even (\<bar>x\<bar> / 2 powi e) = m"
    unfolding e_def assms(5) by (rule round_half_even_int)
  have v: "of_int m * 2 powi e = \<bar>x\<bar>"
    using assms(5) by (simp add: e_def field_simps)
  have "L + 1 \<le> 1024" using assms(4) by simp
  then have "(2::rat) powi (L + 1) \<le> 2 powi 1024" by (rule power_int_increasing) simp
  with assms(3) have "of_int m * 2 powi e < (2::rat) powi 1024" unfolding v by simp
  from rnd_eq [OF assms(1-3) e_def r this] show ?thesis
    unfolding v by (simp add: sgn_if)
qed

text \<open>The conversion of an \<open>int\<close> below \<open>2 ^ 53\<close>, so of every 32-bit integer, is exact.\<close>

lemma py_float_exact:
  assumes "\<bar>i\<bar> < 2 ^ 53"
  shows "py_float i = Finite (of_int i)"
proof (cases "i = 0")
  case True
  then show ?thesis by (simp add: py_float_def rnd_0)
next
  case False
  define k where "k = \<bar>i\<bar>"
  define L where "L = bitlen k - 1"
  have k: "0 < k" using False by (simp add: k_def)
  from bitlen_bounds [OF k] have b: "(2::int) ^ nat L \<le> k" "k < 2 ^ nat (L + 1)"
    by (simp_all add: L_def)
  have L0: "0 \<le> L" using k by (auto simp: L_def bitlen_alt_def)
  have p53: "(2::int) ^ nat L < 2 ^ 53" using b(1) assms by (simp add: k_def)
  have "nat L < 53"
  proof (rule power_less_imp_less_exp)
    show "(1::int) < 2" by simp
    show "(2::int) ^ nat L < 2 ^ 53" by (rule p53)
  qed
  then have L52: "L \<le> 52" by simp
  have kr: "\<bar>of_int i :: rat\<bar> = of_int k" by (simp add: k_def)
  have 1: "(2::rat) powi L \<le> \<bar>of_int i\<bar>"
  proof -
    have "(of_int ((2::int) ^ nat L) :: rat) \<le> of_int k" using b(1) by (simp only: of_int_le_iff)
    then show ?thesis using L0 by (simp add: kr power_int_nonneg_exp)
  qed
  have 2: "\<bar>of_int i :: rat\<bar> < 2 powi (L + 1)"
  proof -
    have "(of_int k :: rat) < of_int ((2::int) ^ nat (L + 1))" using b(2) by (simp only: of_int_less_iff)
    then show ?thesis using L0 by (simp add: kr power_int_nonneg_exp)
  qed
  have m: "max (L - 52) (- 1074) = L - 52" using L0 by simp
  have "(2::rat) powi (L - 52) * 2 powi (52 - L) = 1"
    by (simp add: power_int_add [symmetric])
  then have "\<bar>of_int i :: rat\<bar> / 2 powi (L - 52) = of_int k * 2 powi (52 - L)"
    by (simp add: kr field_simps)
  also have "\<dots> = of_int (k * 2 ^ nat (52 - L))"
    using L52 by (simp add: power_int_nonneg_exp)
  finally have 3: "\<bar>of_int i :: rat\<bar> / 2 powi (max (L - 52) (- 1074)) = of_int (k * 2 ^ nat (52 - L))"
    unfolding m .
  have "rnd (of_int i) = Finite (of_int i)"
    using False L52 by (intro rnd_exact [OF _ 1 2 _ 3]) simp_all
  then show ?thesis by (simp add: py_float_def)
qed

lemma fmul_int_exact:
  assumes "\<bar>i\<bar> < 2 ^ 53" and "\<bar>i * j\<bar> < 2 ^ 53"
  shows "fmul (py_float i) (Finite (of_int j)) = Finite (of_int (i * j))"
proof -
  have "fmul (py_float i) (Finite (of_int j)) = py_float (i * j)"
    by (simp add: py_float_exact [OF assms(1)]) (simp add: py_float_def)
  then show ?thesis by (simp add: py_float_exact [OF assms(2)])
qed






text \<open>The roundings of the concrete requests.\<close>

lemma rnd_ex1: "rnd (67 / 10) = Finite (7543529375845581 / 1125899906842624)"
proof -
  have r: "round_half_even (\<bar>67 / 10\<bar> / 2 powi (- 50)) = 7543529375845581"
    by (rule round_half_even_near) simp
  have "rnd (67 / 10) = Finite (sgn (67 / 10) * (of_int (7543529375845581) * 2 powi (- 50)))"
    by (rule rnd_eq [where L = "2", OF _ _ _ _ r]) simp_all
  then show ?thesis by simp
qed

lemma rnd_ex2: "rnd (210) = Finite (210)"
  by (rule rnd_exact [where L = "7" and m = "7388718138654720"]) simp_all

lemma rnd_ex3: "rnd (1050) = Finite (1050)"
  by (rule rnd_exact [where L = "10" and m = "4617948836659200"]) simp_all

lemma rnd_ex4: "rnd (50) = Finite (50)"
  by (rule rnd_exact [where L = "5" and m = "7036874417766400"]) simp_all

lemma rnd_ex5: "rnd (1) = Finite (1)"
  by (rule rnd_exact [where L = "0" and m = "4503599627370496"]) simp_all

lemma rnd_ex6: "rnd (281) = Finite (281)"
  by (rule rnd_exact [where L = "8" and m = "4943404278480896"]) simp_all

lemma rnd_ex7: "rnd (1405) = Finite (1405)"
  by (rule rnd_exact [where L = "10" and m = "6179255348101120"]) simp_all

lemma rnd_ex8: "rnd (1405 / 21) = Finite (2354002037371855 / 35184372088832)"
proof -
  have r: "round_half_even (\<bar>1405 / 21\<bar> / 2 powi (- 46)) = 4708004074743710"
    by (rule round_half_even_near) simp
  have "rnd (1405 / 21) = Finite (sgn (1405 / 21) * (of_int (4708004074743710) * 2 powi (- 46)))"
    by (rule rnd_eq [where L = "6", OF _ _ _ _ r]) simp_all
  then show ?thesis by simp
qed

lemma rnd_ex9: "rnd (669 / 10) = Finite (2353834492742861 / 35184372088832)"
proof -
  have r: "round_half_even (\<bar>669 / 10\<bar> / 2 powi (- 46)) = 4707668985485722"
    by (rule round_half_even_near) simp
  have "rnd (669 / 10) = Finite (sgn (669 / 10) * (of_int (4707668985485722) * 2 powi (- 46)))"
    by (rule rnd_eq [where L = "6", OF _ _ _ _ r]) simp_all
  then show ?thesis by simp
qed

lemma rnd_ex10: "rnd (15) = Finite (15)"
  by (rule rnd_exact [where L = "3" and m = "8444249301319680"]) simp_all

lemma rnd_ex11: "rnd (35307517391142915 / 35184372088832) = Finite (8826879347785729 / 8796093022208)"
proof -
  have r: "round_half_even (\<bar>35307517391142915 / 35184372088832\<bar> / 2 powi (- 43)) = 8826879347785729"
    by (rule round_half_even_near) simp
  have "rnd (35307517391142915 / 35184372088832) = Finite (sgn (35307517391142915 / 35184372088832) * (of_int (8826879347785729) * 2 powi (- 43)))"
    by (rule rnd_eq [where L = "9", OF _ _ _ _ r]) simp_all
  then show ?thesis by simp
qed

lemma rnd_ex12: "rnd (205) = Finite (205)"
  by (rule rnd_exact [where L = "7" and m = "7212796278210560"]) simp_all

lemma rnd_ex13: "rnd (1546423522048344105 / 1125899906842624) = Finite (2747 / 2)"
proof -
  have r: "round_half_even (\<bar>1546423522048344105 / 1125899906842624\<bar> / 2 powi (- 42)) = 6040716883001344"
    by (rule round_half_even_near) simp
  have "rnd (1546423522048344105 / 1125899906842624) = Finite (sgn (1546423522048344105 / 1125899906842624) * (of_int (6040716883001344) * 2 powi (- 42)))"
    by (rule rnd_eq [where L = "10", OF _ _ _ _ r]) simp_all
  then show ?thesis by simp
qed

lemma rnd_ex14: "rnd (2747 / 42) = Finite (2301225479238607 / 35184372088832)"
proof -
  have r: "round_half_even (\<bar>2747 / 42\<bar> / 2 powi (- 46)) = 4602450958477214"
    by (rule round_half_even_near) simp
  have "rnd (2747 / 42) = Finite (sgn (2747 / 42) * (of_int (4602450958477214) * 2 powi (- 46)))"
    by (rule rnd_eq [where L = "6", OF _ _ _ _ r]) simp_all
  then show ?thesis by simp
qed

lemma rnd_ex15: "rnd (327 / 5) = Finite (2301057934609613 / 35184372088832)"
proof -
  have r: "round_half_even (\<bar>327 / 5\<bar> / 2 powi (- 46)) = 4602115869219226"
    by (rule round_half_even_near) simp
  have "rnd (327 / 5) = Finite (sgn (327 / 5) * (of_int (4602115869219226) * 2 powi (- 46)))"
    by (rule rnd_eq [where L = "6", OF _ _ _ _ r]) simp_all
  then show ?thesis by simp
qed

lemma rnd_ex16: "rnd (34515869019144195 / 35184372088832) = Finite (8628967254786049 / 8796093022208)"
proof -
  have r: "round_half_even (\<bar>34515869019144195 / 35184372088832\<bar> / 2 powi (- 43)) = 8628967254786049"
    by (rule round_half_even_near) simp
  have "rnd (34515869019144195 / 35184372088832) = Finite (sgn (34515869019144195 / 35184372088832) * (of_int (8628967254786049) * 2 powi (- 43)))"
    by (rule rnd_eq [where L = "9", OF _ _ _ _ r]) simp_all
  then show ?thesis by simp
qed

lemma rnd_ex17: "rnd (21) = Finite (21)"
  by (rule rnd_exact [where L = "4" and m = "5910974510923776"]) simp_all

lemma rnd_ex18: "rnd (- 21) = Finite (- 21)"
  by (rule rnd_exact [where L = "4" and m = "5910974510923776"]) simp_all

lemma rnd_ex19: "rnd (- 1) = Finite (- 1)"
  by (rule rnd_exact [where L = "0" and m = "4503599627370496"]) simp_all

lemma round_ex1: "round_half_even (5000) = 5000"
  by (rule round_half_even_near) simp

lemma round_ex2: "round_half_even (58850050934296375 / 8796093022208) = 6690"
  by (rule round_half_even_near) simp

lemma round_ex3: "round_half_even (57530636980965175 / 8796093022208) = 6540"
  by (rule round_half_even_near) simp

lemma round_ex4: "round_half_even (- 100) = - 100"
  by (rule round_half_even_near) simp

lemmas number_examples = rnd_ex1 rnd_ex2 rnd_ex3 rnd_ex4 rnd_ex5 rnd_ex6 rnd_ex7 rnd_ex8 rnd_ex9 rnd_ex10 rnd_ex11 rnd_ex12 rnd_ex13 rnd_ex14 rnd_ex15 rnd_ex16 rnd_ex17 rnd_ex18 rnd_ex19 round_ex1 round_ex2 round_ex3 round_ex4

subsection \<open>Required kudos\<close>



text \<open>The amounts of the concrete requests: 50, and the doubles that Python prints as
  \<open>1003.5000000000001\<close> and \<open>981.0000000000001\<close>.\<close>

lemma ex_required: "required_kudos ex_multiplier [''A'', ''B''] ex_wp = Finite 50"
  by (simp add: required_kudos_def ex_multiplier_def ex_wp_def Let_def py_float_exact
        number_examples)

lemma ex_required_281:
  "required_kudos ex_multiplier [''A'', ''B''] ex_wp_281
     = Finite (8826879347785729 / 8796093022208)"
  by (simp add: required_kudos_def ex_multiplier_def ex_wp_281_def Let_def py_float_exact
        number_examples)

lemma ex_required_205:
  "required_kudos (\<lambda>m. rnd (67 / 10)) [''A'', ''B''] ex_wp_205
     = Finite (8628967254786049 / 8796093022208)"
  by (simp add: required_kudos_def ex_wp_205_def Let_def py_float_exact number_examples)




subsection \<open>Admission: the checks of initiate\_waiting\_prompt\<close>

text \<open>
  Claim C2.  A request paid through a shared key whose budget is finite (not \<open>-1\<close>) and
  smaller than the required kudos, with downgrade not asked for or disabled: the waiting
  prompt is deleted and \<open>KudosUpfront\<close> is raised with the required kudos and the reason
  \<open>SharedKeyInsufficientKudos\<close>.  Nothing is assumed of the balance of the user, and the
  exception is the same for every user.  The amount compared and carried is the one that
  line 125 computes in floating point: with a budget of 981 and 15 units of 205 tokens at
  the multiplier 6.7 it is the double \<open>981.0000000000001\<close>, which exceeds the budget.
\<close>

theorem sharedkey_insufficient_rejected:
  assumes "sharedkey self = Some sk" and "sk_kudos sk \<noteq> - 1"
    and "py_gt (required_kudos (get_text_model_multiplier c) (models self) new_wp)
           (Finite (sk_kudos sk))"
    and "require_upfront_kudos c new_wp = (needs_kudos, tokens, disable_downgrade)"
    and "\<not> (allow_downgrade (args self) \<and> \<not> disable_downgrade)"
  shows "(\<exists>message.
            initiate_waiting_prompt c new_wp self =
              (Inl (KudosUpfront (required_kudos (get_text_model_multiplier c) (models self) new_wp)
                      (username self) message (Some ''SharedKeyInsufficientKudos'')),
               self\<lparr>wp := new_wp, wp_deleted := True\<rparr>))
         \<and> (\<forall>u. fst (initiate_waiting_prompt c new_wp (self\<lparr>user := u\<rparr>))
                  = fst (initiate_waiting_prompt c new_wp self))"
proof -
  have nd: "(allow_downgrade (args self) \<and> \<not> disable_downgrade) = False"
    using assms(5) by simp
  show ?thesis
    using assms(1-4) by (simp add: initiate_waiting_prompt_def Let_def nd)
qed

theorem sharedkey_insufficient_rejected_witness:
  "initiate_waiting_prompt (ex_collaborators_67 (False, 512, False)) ex_wp_205
     (ex_generate (Some \<lparr>sk_id = ''key'', sk_kudos = 981\<rparr>) 1000 False None)
   = (Inl (KudosUpfront (Finite (8628967254786049 / 8796093022208)) ''alice#7''
            (''This shared key does not have enough remaining kudos (?) to fulfill this reques (?).'')
            (Some ''SharedKeyInsufficientKudos'')),
      (ex_generate (Some \<lparr>sk_id = ''key'', sk_kudos = 981\<rparr>) 1000 False None)
        \<lparr>wp := ex_wp_205, wp_deleted := True\<rparr>)"
proof -
  let ?c = "ex_collaborators_67 (False, 512, False)"
  let ?sk = "\<lparr>sk_id = ''key'', sk_kudos = 981\<rparr>"
  let ?self = "ex_generate (Some ?sk) 1000 False None"
  have h1: "sharedkey ?self = Some ?sk" by (simp add: ex_generate_def)
  have h2: "sk_kudos ?sk \<noteq> - 1" by simp
  have r: "required_kudos (get_text_model_multiplier ?c) (models ?self) ex_wp_205
             = Finite (8628967254786049 / 8796093022208)"
    by (simp add: ex_collaborators_67_def ex_collaborators_def ex_generate_def ex_required_205)
  have h3: "py_gt (required_kudos (get_text_model_multiplier ?c) (models ?self) ex_wp_205)
              (Finite (sk_kudos ?sk))"
    by (simp add: r)
  have h4: "require_upfront_kudos ?c ex_wp_205 = (False, 512, False)"
    by (simp add: ex_collaborators_67_def ex_collaborators_def)
  have h5: "\<not> (allow_downgrade (args ?self) \<and> \<not> False)" by (simp add: ex_generate_def)
  from sharedkey_insufficient_rejected [OF h1 h2 h3 h4 h5]
  obtain message where m: "initiate_waiting_prompt ?c ex_wp_205 ?self =
      (Inl (KudosUpfront (Finite (8628967254786049 / 8796093022208)) (username ?self) message
             (Some ''SharedKeyInsufficientKudos'')),
       ?self\<lparr>wp := ex_wp_205, wp_deleted := True\<rparr>)"
    unfolding r by blast
  have "message = ''This shared key does not have enough remaining kudos (?) to fulfill this reques (?).''"
    using m
    by (simp add: initiate_waiting_prompt_def Let_def ex_generate_def r [simplified ex_generate_def, simplified])
       (simp add: ex_collaborators_67_def ex_collaborators_def)
  with m show ?thesis by (simp add: ex_generate_def)
qed

text \<open>
  Claim C9.  With a shared key whose budget is the sentinel \<open>-1\<close> the budget check is
  skipped: the shared-key \<open>KudosUpfront\<close> is never raised and the priority of the waiting
  prompt is not marked for downgrade, whatever the required kudos are.
\<close>

theorem unlimited_sharedkey_skips_budget_check:
  assumes "sharedkey self = Some sk" and "sk_kudos sk = - 1"
  shows "(\<forall>r u m. fst (initiate_waiting_prompt c new_wp self)
                     \<noteq> Inl (KudosUpfront r u m (Some ''SharedKeyInsufficientKudos'')))
         \<and> downgrade_wp_priority (snd (initiate_waiting_prompt c new_wp self))
             = downgrade_wp_priority self"
  using assms
  by (simp add: initiate_waiting_prompt_def Let_def split: prod.splits)


theorem unlimited_sharedkey_skips_budget_check_witness:
  "(\<forall>r u m. fst (initiate_waiting_prompt (ex_collaborators (False, 512, False)) ex_wp
                     (ex_generate (Some \<lparr>sk_id = ''key'', sk_kudos = - 1\<rparr>) 1000 False None))
               \<noteq> Inl (KudosUpfront r u m (Some ''SharedKeyInsufficientKudos'')))
   \<and> downgrade_wp_priority
        (snd (initiate_waiting_prompt (ex_collaborators (False, 512, False)) ex_wp
               (ex_generate (Some \<lparr>sk_id = ''key'', sk_kudos = - 1\<rparr>) 1000 False None)))
      = False"
proof -
  let ?sk = "\<lparr>sk_id = ''key'', sk_kudos = - 1\<rparr>"
  let ?self = "ex_generate (Some ?sk) 1000 False None"
  have h1: "sharedkey ?self = Some ?sk" by (simp add: ex_generate_def)
  have h2: "sk_kudos ?sk = - 1" by simp
  have h3: "downgrade_wp_priority ?self = False" by (simp add: ex_generate_def)
  from unlimited_sharedkey_skips_budget_check [OF h1 h2, of "ex_collaborators (False, 512, False)" ex_wp]
  show ?thesis unfolding h3 .
qed

text \<open>
  Claim C3.  Upfront kudos are needed and exceed the balance of the user.  If downgrade is
  allowed and not disabled, no \<open>KudosUpfront\<close> is raised and \<open>wp.downgrade(tokens)\<close> is
  applied: the job is admitted with the reduced scope.  The one job that is still refused
  is the one that the separate token ceiling of a shared key refuses whatever the kudos
  are (claim C5): the job is admitted exactly when there is no shared key, or the
  downgraded job is within the limits of the shared key, or the shared key is the one of
  the style.  Otherwise the waiting prompt is deleted and \<open>KudosUpfront\<close> carries the
  required kudos, the amount that line 125 computes in floating point: a balance of
  \<open>1003.5\<close> is below the \<open>1003.5000000000001\<close> of 15 units of 281 tokens at multiplier 5.
\<close>

theorem upfront_insufficient_downgrade_or_reject:
  assumes "require_upfront_kudos c new_wp = (True, tokens, disable_downgrade)"
    and "py_gt (required_kudos (get_text_model_multiplier c) (models self) new_wp)
           (Finite (kudos (user self)))"
  shows "if allow_downgrade (args self) \<and> \<not> disable_downgrade
         then wp (snd (initiate_waiting_prompt c new_wp self)) = downgrade c new_wp tokens
            \<and> (\<forall>r u m rc. fst (initiate_waiting_prompt c new_wp self) \<noteq> Inl (KudosUpfront r u m rc))
            \<and> ((fst (initiate_waiting_prompt c new_wp self) = Inr ()
                  \<and> \<not> wp_deleted (snd (initiate_waiting_prompt c new_wp self)))
                = (case sharedkey self of
                     None \<Rightarrow> True
                   | Some sk \<Rightarrow>
                       fst (is_job_within_limits c sk (max_length (downgrade c new_wp tokens)))
                       \<or> style_sharedkey_matches (existing_style self) sk))
         else (\<exists>u m rc. fst (initiate_waiting_prompt c new_wp self)
                   = Inl (KudosUpfront
                            (required_kudos (get_text_model_multiplier c) (models self) new_wp)
                            u m rc))
            \<and> wp_deleted (snd (initiate_waiting_prompt c new_wp self))"
proof (cases "allow_downgrade (args self) \<and> \<not> disable_downgrade")
  case True
  then show ?thesis
    using assms
    by (cases "sharedkey self")
       (auto simp add: initiate_waiting_prompt_def Let_def split: prod.splits)
next
  case False
  then have nd: "(allow_downgrade (args self) \<and> \<not> disable_downgrade) = False" by simp
  show ?thesis
    using assms
    by (cases "sharedkey self")
       (simp_all add: initiate_waiting_prompt_def Let_def nd)
qed

theorem upfront_insufficient_downgrade_or_reject_witness:
  "wp (snd (initiate_waiting_prompt (ex_collaborators (True, 150, False)) ex_wp
              (ex_generate None 10 True None)))
     = ex_wp\<lparr>max_length := 150\<rparr>
   \<and> fst (initiate_waiting_prompt (ex_collaborators (True, 150, False)) ex_wp
              (ex_generate None 10 True None)) = Inr ()
   \<and> \<not> wp_deleted (snd (initiate_waiting_prompt (ex_collaborators (True, 150, False)) ex_wp
              (ex_generate None 10 True None)))
   \<and> (\<exists>u m rc. fst (initiate_waiting_prompt (ex_collaborators (True, 150, False)) ex_wp
                       (ex_generate None 10 False None))
                 = Inl (KudosUpfront (Finite 50) u m rc))
   \<and> wp_deleted (snd (initiate_waiting_prompt (ex_collaborators (True, 150, False)) ex_wp
              (ex_generate None 10 False None)))
   \<and> (\<exists>u m rc. fst (initiate_waiting_prompt (ex_collaborators (True, 150, False)) ex_wp_281
                       (ex_generate None (2007 / 2) False None))
                 = Inl (KudosUpfront (Finite (8826879347785729 / 8796093022208)) u m rc))"
proof -
  let ?c = "ex_collaborators (True, 150, False)"
  have h1: "require_upfront_kudos ?c w = (True, 150, False)" for w
    by (simp add: ex_collaborators_def)
  have r: "required_kudos (get_text_model_multiplier ?c) (models (ex_generate None x b None)) ex_wp
             = Finite 50" for b x
    by (simp add: ex_collaborators_def ex_generate_def ex_required)
  have r': "required_kudos (get_text_model_multiplier ?c) (models (ex_generate None x b None))
              ex_wp_281 = Finite (8826879347785729 / 8796093022208)" for b x
    by (simp add: ex_collaborators_def ex_generate_def ex_required_281)
  have h2: "py_gt (required_kudos (get_text_model_multiplier ?c)
                     (models (ex_generate None 10 b None)) ex_wp)
              (Finite (kudos (user (ex_generate None 10 b None))))" for b
    unfolding r by (simp add: ex_generate_def)
  have h2': "py_gt (required_kudos (get_text_model_multiplier ?c)
                      (models (ex_generate None (2007 / 2) False None)) ex_wp_281)
               (Finite (kudos (user (ex_generate None (2007 / 2) False None))))"
    unfolding r' by (simp add: ex_generate_def)
  have d: "downgrade ?c ex_wp 150 = ex_wp\<lparr>max_length := 150\<rparr>"
    by (simp add: ex_collaborators_def ex_wp_def)
  have a: "allow_downgrade (args (ex_generate None x b None)) = b"
          "sharedkey (ex_generate None x b None) = None" for b x
    by (simp_all add: ex_generate_def)
  from upfront_insufficient_downgrade_or_reject [OF h1 h2 [of True]]
       upfront_insufficient_downgrade_or_reject [OF h1 h2 [of False]]
       upfront_insufficient_downgrade_or_reject [OF h1 h2']
  show ?thesis
    unfolding r r' d a by simp
qed

text \<open>
  Claim C5.  With a shared key, the token ceiling is checked on the job whatever the kudos
  are.  When no \<open>KudosUpfront\<close> is raised, a job beyond the ceiling whose shared key is not
  the one of the style is deleted and refused with the message of the ceiling check, and
  any other job is admitted.  So no admitted job is beyond the ceiling unless the shared key
  is the one of the style, every refused job has been deleted, and with the shared key of
  the style the ceiling check never refuses.
\<close>

theorem sharedkey_token_ceiling:
  assumes "sharedkey self = Some sk"
  shows "((\<forall>r u m rc. fst (initiate_waiting_prompt c new_wp self) \<noteq> Inl (KudosUpfront r u m rc)) \<longrightarrow>
            (if \<not> fst (is_job_within_limits c sk
                         (max_length (wp (snd (initiate_waiting_prompt c new_wp self)))))
                \<and> \<not> style_sharedkey_matches (existing_style self) sk
             then fst (initiate_waiting_prompt c new_wp self)
                    = Inl (BadRequest
                            (snd (is_job_within_limits c sk
                                   (max_length (wp (snd (initiate_waiting_prompt c new_wp self))))))
                            None)
                  \<and> wp_deleted (snd (initiate_waiting_prompt c new_wp self))
             else fst (initiate_waiting_prompt c new_wp self) = Inr ()
                  \<and> \<not> wp_deleted (snd (initiate_waiting_prompt c new_wp self))))
       \<and> (fst (initiate_waiting_prompt c new_wp self) = Inr () \<longrightarrow>
            fst (is_job_within_limits c sk
                  (max_length (wp (snd (initiate_waiting_prompt c new_wp self)))))
            \<or> style_sharedkey_matches (existing_style self) sk)
       \<and> (fst (initiate_waiting_prompt c new_wp self) \<noteq> Inr () \<longrightarrow>
            wp_deleted (snd (initiate_waiting_prompt c new_wp self)))
       \<and> (style_sharedkey_matches (existing_style self) sk \<longrightarrow>
            (\<forall>m rc. fst (initiate_waiting_prompt c new_wp self) \<noteq> Inl (BadRequest m rc)))"
  using assms
  by (auto simp add: initiate_waiting_prompt_def Let_def split: prod.splits if_splits)

theorem sharedkey_token_ceiling_witness:
  "(\<forall>m rc. fst (initiate_waiting_prompt (ex_collaborators (False, 512, False)) ex_wp
                  (ex_generate (Some \<lparr>sk_id = ''key'', sk_kudos = 1000\<rparr>) 1000 False (Some ex_style)))
             \<noteq> Inl (BadRequest m rc))
   \<and> fst (initiate_waiting_prompt (ex_collaborators (False, 512, False)) ex_wp
            (ex_generate (Some \<lparr>sk_id = ''key'', sk_kudos = 1000\<rparr>) 1000 False None))
       = Inl (BadRequest ''too many tokens'' None)
   \<and> wp_deleted (snd (initiate_waiting_prompt (ex_collaborators (False, 512, False)) ex_wp
            (ex_generate (Some \<lparr>sk_id = ''key'', sk_kudos = 1000\<rparr>) 1000 False None)))"
proof -
  let ?c = "ex_collaborators (False, 512, False)"
  let ?sk = "\<lparr>sk_id = ''key'', sk_kudos = 1000\<rparr>"
  have h: "sharedkey (ex_generate (Some ?sk) 1000 False st) = Some ?sk" for st
    by (simp add: ex_generate_def)
  have m: "style_sharedkey_matches (existing_style (ex_generate (Some ?sk) 1000 False (Some ex_style))) ?sk"
          "\<not> style_sharedkey_matches (existing_style (ex_generate (Some ?sk) 1000 False None)) ?sk"
    by (simp_all add: style_sharedkey_matches_def ex_generate_def ex_style_def)
  have ev: "initiate_waiting_prompt ?c ex_wp (ex_generate (Some ?sk) 1000 False None)
       = (Inl (BadRequest ''too many tokens'' None),
          (ex_generate (Some ?sk) 1000 False None)\<lparr>wp := ex_wp, wp_deleted := True\<rparr>)"
    by (simp add: initiate_waiting_prompt_def Let_def ex_collaborators_def ex_generate_def
          ex_required style_sharedkey_matches_def)
       (simp add: ex_wp_def)
  have k: "\<forall>r u m rc. fst (initiate_waiting_prompt ?c ex_wp (ex_generate (Some ?sk) 1000 False None))
             \<noteq> Inl (KudosUpfront r u m rc)"
    by (simp add: ev)
  have l: "\<not> fst (is_job_within_limits ?c ?sk (max_length
              (wp (snd (initiate_waiting_prompt ?c ex_wp (ex_generate (Some ?sk) 1000 False None))))))"
    by (simp add: ev) (simp add: ex_collaborators_def ex_wp_def)
  have s: "snd (is_job_within_limits ?c ?sk t) = ''too many tokens''" for t
    by (simp add: ex_collaborators_def)
  from sharedkey_token_ceiling [OF h [of "Some ex_style"], of ?c ex_wp] m(1)
  have "\<forall>m rc. fst (initiate_waiting_prompt ?c ex_wp
                  (ex_generate (Some ?sk) 1000 False (Some ex_style))) \<noteq> Inl (BadRequest m rc)"
    by blast
  moreover
  from sharedkey_token_ceiling [OF h [of None], of ?c ex_wp] k l m(2)
  have "fst (initiate_waiting_prompt ?c ex_wp (ex_generate (Some ?sk) 1000 False None))
          = Inl (BadRequest ''too many tokens'' None)
        \<and> wp_deleted (snd (initiate_waiting_prompt ?c ex_wp (ex_generate (Some ?sk) 1000 False None)))"
    unfolding s by presburger
  ultimately show ?thesis by blast
qed

subsection \<open>Interpolation of the prompt into a style\<close>

lemma emit_emit: "emit a (emit b r) = emit (a @ b) r"
  by (cases r) (simp_all add: emit_def)

lemma emit_Inr: "emit a (Inr b) = Inr (a @ b)"
  by (simp add: emit_def)

lemma emit_Nil: "emit [] r = r"
  by (cases r) (simp_all add: emit_def)

lemma format_scan_plain_char:
  "c \<noteq> CHR ''{'' \<Longrightarrow> c \<noteq> CHR ''}'' \<Longrightarrow>
   format_scan B p None (c # cs) = emit [c] (format_scan B p None cs)"
  by (cases cs) (simp_all add: emit_def)

lemma format_scan_escaped:
  "c = CHR ''{'' \<or> c = CHR ''}'' \<Longrightarrow>
   format_scan B p None (c # c # cs) = emit [c] (format_scan B p None cs)"
  by auto

lemma format_scan_literal:
  "format_scan B p None (escape_braces s @ rest) = emit s (format_scan B p None rest)"
proof (induction s)
  case Nil
  show ?case by (simp add: escape_braces_def emit_Nil)
next
  case (Cons ch s)
  have e: "escape_braces (ch # s) = (if ch = CHR ''{'' \<or> ch = CHR ''}'' then [ch, ch] else [ch]) @ escape_braces s"
    by (simp add: escape_braces_def)
  show ?case
  proof (cases "ch = CHR ''{'' \<or> ch = CHR ''}''")
    case True
    then have "format_scan B p None (escape_braces (ch # s) @ rest)
                 = emit [ch] (format_scan B p None (escape_braces s @ rest))"
      unfolding e using format_scan_escaped [of ch B p "escape_braces s @ rest"] by simp
    then show ?thesis by (simp add: Cons.IH emit_emit)
  next
    case False
    then have "format_scan B p None (escape_braces (ch # s) @ rest)
                 = emit [ch] (format_scan B p None (escape_braces s @ rest))"
      unfolding e using format_scan_plain_char [of ch B p "escape_braces s @ rest"] by simp
    then show ?thesis by (simp add: Cons.IH emit_emit)
  qed
qed

lemma format_scan_field_name:
  "list_all plain_char name \<Longrightarrow>
   format_scan B p (Some (acc, whole)) (name @ CHR ''}'' # rest)
     = format_scan B p (Some (rev name @ acc, whole)) (CHR ''}'' # rest)"
proof (induction name arbitrary: acc)
  case Nil
  show ?case by simp
next
  case (Cons ch name)
  then have pc: "plain_char ch" and rest: "list_all plain_char name" by simp_all
  from pc have "ch \<noteq> CHR ''}''" "ch \<noteq> CHR ''{''" "ch \<noteq> CHR ''[''" "ch \<noteq> CHR '':''" "ch \<noteq> CHR ''!''"
    by (auto simp add: plain_char_def)
  then have "format_scan B p (Some (acc, whole)) ((ch # name) @ CHR ''}'' # rest)
               = format_scan B p (Some (ch # acc, whole)) (name @ CHR ''}'' # rest)"
    by simp
  also have "\<dots> = format_scan B p (Some (rev name @ ch # acc, whole)) (CHR ''}'' # rest)"
    by (rule Cons.IH [OF rest])
  finally show ?case by simp
qed

lemma keyword_name_first_part:
  assumes "keyword_name name"
  shows "first_part name = name" and "\<not> list_all is_digit name"
    and "list_ex ascii_non_digit name" and "CHR ''.'' \<notin> set name" and "name \<noteq> []"
proof -
  from assms have pc: "list_all plain_char name" and ex: "list_ex ascii_non_digit name"
    by (simp_all add: keyword_name_def)
  from pc show dot: "CHR ''.'' \<notin> set name"
    by (auto simp add: list_all_iff plain_char_def)
  then have "\<forall>ch \<in> set name. ch \<noteq> CHR ''.''" by blast
  then show "first_part name = name"
    unfolding first_part_def by (simp only: takeWhile_eq_all_conv)
  from ex show "\<not> list_all is_digit name"
    by (auto simp add: list_all_iff list_ex_iff ascii_non_digit_def)
  from ex show "list_ex ascii_non_digit name" .
  from ex show "name \<noteq> []" by auto
qed

lemma format_scan_slot:
  assumes "keyword_name name"
  shows "format_scan B p None (CHR ''{'' # name @ CHR ''}'' # rest)
           = emit (if name = ''p'' then p else []) (format_scan B p None rest)"
proof -
  from assms have pc: "list_all plain_char name" by (simp add: keyword_name_def)
  from keyword_name_first_part(5) [OF assms] obtain d ds where n: "name = d # ds"
    by (cases name) simp_all
  from pc n have "d \<noteq> CHR ''{''" by (auto simp add: plain_char_def)
  then have "format_scan B p None (CHR ''{'' # name @ CHR ''}'' # rest)
      = format_scan B p (Some ([], CHR ''{'' # name @ CHR ''}'' # rest)) (name @ CHR ''}'' # rest)"
    by (simp add: n)
  also have "\<dots> = format_scan B p (Some (rev name @ [], CHR ''{'' # name @ CHR ''}'' # rest))
                      (CHR ''}'' # rest)"
    by (rule format_scan_field_name [OF pc])
  also have "\<dots> = emit (if name = ''p'' then p else []) (format_scan B p None rest)"
    using keyword_name_first_part(1-4) [OF assms] by (simp add: Let_def)
  finally show ?thesis .
qed

text \<open>On a template of pieces with keyword names the scan returns the filled text.\<close>

lemma format_scan_pieces:
  "list_all keyword_piece pieces \<Longrightarrow>
   format_scan B p None (template_of pieces) = Inr (fill p pieces)"
proof (induction pieces)
  case Nil
  show ?case by (simp add: template_of_def fill_def)
next
  case (Cons x pieces)
  then have IH: "format_scan B p None (template_of pieces) = Inr (fill p pieces)" by simp
  have t: "template_of (y # pieces) = render_piece y @ template_of pieces" for y
    by (simp add: template_of_def)
  have f: "fill p (y # pieces) = fill_piece p y @ fill p pieces" for y
    by (simp add: fill_def)
  show ?case
  proof (cases x)
    case (Lit s)
    then show ?thesis by (simp add: t f format_scan_literal IH emit_Inr)
  next
    case (Slot name)
    with Cons.prems have k: "keyword_name name" by simp
    have "format_scan B p None (template_of (x # pieces))
            = format_scan B p None (CHR ''{'' # name @ CHR ''}'' # template_of pieces)"
      by (simp add: t Slot)
    also have "\<dots> = emit (if name = ''p'' then p else []) (format_scan B p None (template_of pieces))"
      by (rule format_scan_slot [OF k])
    finally show ?thesis by (simp add: IH emit_Inr f Slot)
  qed
qed

text \<open>The first style of the resolved object, when there is one, is the style applied.\<close>

lemma chosen_style_cases:
  assumes "(case obj of Style s0 \<Rightarrow> [s0] | StyleCollection col \<Rightarrow> shuffle (styles col)) = s # rest"
  shows "(case obj of
            Style s \<Rightarrow> Inr (s, db)
          | StyleCollection col \<Rightarrow>
              (case shuffle (styles col) of
                 [] \<Rightarrow> Inl PyIndexError
               | s # colstyles \<Rightarrow>
                   Inr (s, db\<lparr>use_count := (use_count db)
                                (collection_id col := use_count db (collection_id col) + 1)\<rparr>)))
         = Inr (s, (case obj of Style s0 \<Rightarrow> db
                    | StyleCollection col \<Rightarrow>
                        db\<lparr>use_count := (use_count db)
                                (collection_id col := use_count db (collection_id col) + 1)\<rparr>))"
  using assms by (cases obj) (simp_all split: list.splits)

text \<open>
  Claim C6.  The claim asks that the interpolation never fails, whatever placeholders the
  template has, and the comment of lines 202-203 says that the \<open>defaultdict\<close> is there for
  the erroneous keys of a style author.  The code misses the positional fields: on a
  template with \<open>{0}\<close> or \<open>{}\<close>, \<open>format_map\<close> raises \<open>ValueError\<close> (``Format string
  contains positional fields'') and style application fails.
\<close>

theorem apply_style_positional_field_raises:
  "apply_style (Inr (Style (ex_style\<lparr>style_prompt := ''Story {0}: {p}''\<rparr>))) (\<lambda>xs. xs)
     (\<lambda>w p. Inr p) (ex_styled, ex_style_db) = Inl PyValueError
   \<and> apply_style (Inr (Style (ex_style\<lparr>style_prompt := ''{p} {}''\<rparr>))) (\<lambda>xs. xs)
     (\<lambda>w p. Inr p) (ex_styled, ex_style_db) = Inl PyValueError"
  by (simp add: apply_style_def ex_styled_def ex_generate_def ex_style_def obj_style_type_def
        format_map_def first_part_def is_digit_def ascii_non_digit_def emit_def)

text \<open>
  On the templates whose fields are all keyword names the code does what the claim says:
  style application succeeds and the prompt becomes the template with the prompt of the
  user in every field \<open>p\<close> and the empty string in every other field.  The style is the
  one resolved, or the first member of the shuffled collection.
\<close>

lemma apply_style_fills_keyword_fields:
  assumes "style_arg (args self) = Some name"
    and "super_apply_style = Inr obj" and "obj_style_type obj = ''text''"
    and "(case obj of Style s0 \<Rightarrow> [s0] | StyleCollection col \<Rightarrow> shuffle (styles col)) = s # rest"
    and "style_prompt s = template_of pieces" and "list_all keyword_piece pieces"
  shows "\<exists>self' db'. apply_style super_apply_style shuffle beyond (self, db) = Inr (self', db')
           \<and> prompt self' = fill (prompt self) pieces"
proof -
  have f: "format_map beyond (style_prompt s) (prompt self) = Inr (fill (prompt self) pieces)"
    unfolding format_map_def assms(5) by (rule format_scan_pieces [OF assms(6)])
  show ?thesis
    unfolding apply_style_def
    by (simp add: assms(1-3) chosen_style_cases [OF assms(4)] f Let_def)
qed

lemma apply_style_fills_keyword_fields_example:
  "\<exists>self' db'. apply_style (Inr (Style ex_style)) (\<lambda>xs. xs) (\<lambda>w p. Inl PyValueError)
                  (ex_styled, ex_style_db) = Inr (self', db')
        \<and> prompt self' = ''Story about Hello, . {ok}''"
proof -
  have h1: "style_arg (args ex_styled) = Some ''storyteller''"
    by (simp add: ex_styled_def)
  have h3: "obj_style_type (Style ex_style) = ''text''"
    by (simp add: obj_style_type_def ex_style_def)
  have h4: "(case Style ex_style of Style s0 \<Rightarrow> [s0]
             | StyleCollection col \<Rightarrow> (\<lambda>xs. xs) (styles col)) = ex_style # []"
    by simp
  have h5: "style_prompt ex_style = template_of ex_pieces"
    by (simp add: ex_style_def ex_pieces_def template_of_def escape_braces_def)
  have h6: "list_all keyword_piece ex_pieces"
    by (simp add: ex_pieces_def keyword_name_def plain_char_def ascii_non_digit_def is_digit_def)
  have p: "fill (prompt ex_styled) ex_pieces = ''Story about Hello, . {ok}''"
    by (simp add: fill_def ex_pieces_def ex_styled_def ex_generate_def)
  from apply_style_fills_keyword_fields [OF h1 refl h3 h4 h5 h6, of "\<lambda>w p. Inl PyValueError" ex_style_db]
  show ?thesis unfolding p .
qed

text \<open>The concrete request with a style runs to its end.\<close>

lemma ex_apply_style_returns:
  "\<exists>self' db'. apply_style (Inr (Style ex_style)) (\<lambda>xs. xs) (\<lambda>w p. Inl PyValueError)
                  (ex_styled, ex_style_db) = Inr (self', db')"
  by (simp add: apply_style_def ex_styled_def ex_generate_def ex_style_def obj_style_type_def
        format_map_def first_part_def is_digit_def ascii_non_digit_def emit_def Let_def)

text \<open>
  Claim C7.  After style application the model list is the one of the style and the
  parameters are those of the style, except for \<open>n\<close>, which is the value that the request
  had, or 1 when it had none: the \<open>n\<close> of the style never replaces it.
\<close>

theorem apply_style_overrides_all_but_n:
  assumes "style_arg (args self) = Some name"
    and "apply_style super_apply_style shuffle beyond (self, db) = Inr (self', db')"
  shows "\<exists>s. existing_style self' = Some s
           \<and> (case super_apply_style of
                 Inr (Style s0) \<Rightarrow> s = s0
               | Inr (StyleCollection col) \<Rightarrow> s = hd (shuffle (styles col))
               | Inl e \<Rightarrow> False)
           \<and> models self' = style_models s
           \<and> params self' = (style_params s)
                (''n'' \<mapsto> (case params self ''n'' of Some v \<Rightarrow> v | None \<Rightarrow> PInt 1))"
  using assms
  unfolding apply_style_def
  by (auto simp add: Let_def split: sum.splits if_splits style_obj.splits list.splits)

theorem apply_style_overrides_all_but_n_witness:
  "\<exists>self' db'. apply_style (Inr (Style ex_style)) (\<lambda>xs. xs) (\<lambda>w p. Inl PyValueError)
                  (ex_styled, ex_style_db) = Inr (self', db')
     \<and> models self' = [''B'']
     \<and> params self' = [''n'' \<mapsto> PInt 2, ''max_length'' \<mapsto> PInt 120]"
proof -
  have h1: "style_arg (args ex_styled) = Some ''storyteller''"
    by (simp add: ex_styled_def)
  obtain self' db' where r: "apply_style (Inr (Style ex_style)) (\<lambda>xs. xs) (\<lambda>w p. Inl PyValueError)
                  (ex_styled, ex_style_db) = Inr (self', db')"
    using ex_apply_style_returns by blast
  from apply_style_overrides_all_but_n [OF h1 r]
  have "models self' = style_models ex_style"
    and "params self' = (style_params ex_style)
           (''n'' \<mapsto> (case params ex_styled ''n'' of Some v \<Rightarrow> v | None \<Rightarrow> PInt 1))"
    by auto
  then have "models self' = [''B'']"
    and "params self' = [''n'' \<mapsto> PInt 2, ''max_length'' \<mapsto> PInt 120]"
    by (auto simp add: ex_style_def ex_styled_def ex_generate_def)
  with r show ?thesis by blast
qed

subsection \<open>Cancelling a request\<close>



text \<open>
  Claim C10.  The status that \<open>delete\<close> returns is computed from the database and the job
  as they are before \<open>wp.n = 0\<close>: it is the status of the job before the cancellation.
  In the example the status returned shows 3 remaining units while the stored job has 0.
\<close>

theorem delete_returns_status_before:
  assumes "db wid = Some w"
  shows "fst (delete get_status wid db) = Inr (get_status db w, 200)"
  using assms by (simp add: delete_def Let_def)

theorem delete_returns_status_before_witness:
  "fst (delete (\<lambda>db w. n w) ''job'' ex_jobs) = Inr (3, 200)
   \<and> map_option n (snd (delete (\<lambda>db w. n w) ''job'' ex_jobs) ''job'') = Some 0"
proof -
  have h1: "ex_jobs ''job'' = Some \<lparr>wp_id = ''job'', n = 3, max_length = 80\<rparr>"
    by (simp add: ex_jobs_def)
  have "map_option n (snd (delete (\<lambda>db w. n w) ''job'' ex_jobs) ''job'') = Some 0"
    by (simp add: delete_def h1)
  with delete_returns_status_before
         [where db = ex_jobs and wid = "''job''" and get_status = "\<lambda>db w. n w", OF h1]
  show ?thesis by simp
qed

subsection \<open>Kudos transfer\<close>

text \<open>
  Claim C8.  A transfer request from any address but \<open>167.86.124.45\<close> raises the
  exception with the message ``Access Denied'' (the class \<open>BadRequest\<close> of the horde),
  and the table of users, so the balance and the trust flag of the target, is unchanged.
\<close>

theorem post_denies_other_callers:
  assumes "remote_addr \<noteq> ''167.86.124.45''"
  shows "post set_trusted modify_kudos remote_addr uid parse_args users
           = (Inl (BadRequest ''Access Denied'' None), users)"
  using assms by (simp add: post_def)

theorem post_denies_other_callers_witness:
  "post (\<lambda>t u. u\<lparr>trusted := t\<rparr>) (\<lambda>a s u. u\<lparr>kudos := kudos u + of_int a\<rparr>) ''10.0.0.1'' ''7''
     (Inr \<lparr>kai_id = 1, kudos_amount = 500, args_trusted = True\<rparr>) ex_users
   = (Inl (BadRequest ''Access Denied'' None), ex_users)"
proof -
  have h: "''10.0.0.1'' \<noteq> ''167.86.124.45''" by simp
  show ?thesis by (rule post_denies_other_callers [OF h])
qed

text \<open>From the trusted address the same request is carried out.\<close>

lemma post_trusted_caller_example:
  "post (\<lambda>t u. u\<lparr>trusted := t\<rparr>) (\<lambda>a s u. u\<lparr>kudos := kudos u + of_int a\<rparr>) ''167.86.124.45'' ''7''
     (Inr \<lparr>kai_id = 1, kudos_amount = 500, args_trusted = True\<rparr>) ex_users
   = (Inr (510, 200), ex_users(''7'' \<mapsto> \<lparr>user_id = 7, kudos = 510, trusted = True\<rparr>))"
  by (simp add: post_def ex_users_def Let_def)

end
